theory Spec2Isabelle
  imports Complex_Main "HOL-Library.Code_Target_Numeral"
begin

section \<open>Numbers and strings of the host language\<close>

text \<open>
  The listing page is TypeScript. Its \<open>number\<close> values are modelled by \<open>jsnum\<close>: the
  finite values are exact rationals (every finite binary64 value is one), and the three
  special values \<open>Infinity\<close>, \<open>-Infinity\<close> and \<open>NaN\<close> are constructors of their own.
  A parsed literal is rounded to the nearest binary64 value (\<open>toBinary64\<close> below); the
  sums and differences the component computes on finite values are taken exactly, and the
  sign of zero is not modelled. A destructured array slot that may be \<open>undefined\<close> is a
  \<open>jsnum option\<close>, with \<open>None\<close> for \<open>undefined\<close>.
\<close>

datatype jsnum = NaN | NegInf | Fin rat | PosInf

text \<open>\<open>ToNumber\<close> on a slot: \<open>undefined\<close> converts to \<open>NaN\<close>.\<close>

fun ToNumber :: "jsnum option \<Rightarrow> jsnum" where
  "ToNumber None = NaN"
| "ToNumber (Some v) = v"

text \<open>The relational operator \<open>a <= b\<close> on numbers: false as soon as one side is \<open>NaN\<close>.\<close>

fun js_le :: "jsnum \<Rightarrow> jsnum \<Rightarrow> bool" where
  "js_le NaN b = False"
| "js_le a NaN = False"
| "js_le NegInf b = True"
| "js_le a PosInf = True"
| "js_le (Fin a) (Fin b) = (a \<le> b)"
| "js_le PosInf b = False"
| "js_le (Fin a) NegInf = False"

text \<open>\<open>a >= b\<close> and \<open>a <= b\<close> with a possibly undefined right operand.\<close>

definition js_ge_slot :: "jsnum \<Rightarrow> jsnum option \<Rightarrow> bool" where
  "js_ge_slot a b = js_le (ToNumber b) a"

definition js_le_slot :: "jsnum \<Rightarrow> jsnum option \<Rightarrow> bool" where
  "js_le_slot a b = js_le a (ToNumber b)"

text \<open>
  Strings are lists of characters with codes below 256. \<open>String.prototype.includes\<close>
  tests for a contiguous occurrence, \<open>toLowerCase\<close> maps the capitals of that range
  (A to Z, and the accented capitals 192 to 222 except the multiplication sign 215) to the
  letter 32 codes higher, \<open>split\<close> cuts at every occurrence of the separator character.
\<close>

fun startsWith :: "string \<Rightarrow> string \<Rightarrow> bool" where
  "startsWith s [] = True"
| "startsWith [] (c # t) = False"
| "startsWith (d # s) (c # t) = (d = c \<and> startsWith s t)"

fun includes_str :: "string \<Rightarrow> string \<Rightarrow> bool" where
  "includes_str [] t = (t = [])"
| "includes_str (c # s) t = (startsWith (c # s) t \<or> includes_str s t)"

definition toLowerCase_char :: "char \<Rightarrow> char" where
  "toLowerCase_char c =
     (let n = (of_char c :: nat)
      in if (65 \<le> n \<and> n \<le> 90) \<or> (192 \<le> n \<and> n \<le> 222 \<and> n \<noteq> 215) then char_of (n + 32)
         else c)"

definition toLowerCase :: "string \<Rightarrow> string" where
  "toLowerCase s = map toLowerCase_char s"

fun split_on :: "char \<Rightarrow> string \<Rightarrow> string list" where
  "split_on sep [] = [[]]"
| "split_on sep (c # s) =
     (if c = sep then [] # split_on sep s
      else (case split_on sep s of [] \<Rightarrow> [[c]] | w # ws \<Rightarrow> (c # w) # ws))"

subsection \<open>The Number value of a mathematical value\<close>

text \<open>
  A numeric literal denotes the binary64 value nearest to its mathematical value, ties
  going to the even significand; a value that rounds to \<open>2^1024\<close> or beyond becomes an
  infinity, and one below half the least subnormal becomes 0. \<open>toBinary64\<close> computes
  that value: with \<open>e\<close> the exponent of the binade (at least \<open>-1022\<close>), the spacing of
  representable values is \<open>2^(e - 52)\<close>, and the quotient by the spacing is rounded to an
  integer. (ECMAScript lets an engine approximate a decimal literal only beyond its 20th
  significant digit; the engines round correctly.)
\<close>

function bitLength :: "int \<Rightarrow> int" where
  "bitLength n = (if n \<le> 0 then 0 else 1 + bitLength (n div 2))"
  by pat_completeness auto
termination
  by (relation "measure nat") auto

declare bitLength.simps [simp del]

definition pow2 :: "int \<Rightarrow> rat" where
  "pow2 k = (if 0 \<le> k then 2 ^ nat k else 1 / 2 ^ nat (- k))"

text \<open>The floor of the binary logarithm of a positive rational.\<close>

definition floorLog2 :: "rat \<Rightarrow> int" where
  "floorLog2 a =
     (let (p, q) = quotient_of a;
          d = bitLength p - bitLength q
      in if pow2 d \<le> a then d else d - 1)"

definition roundHalfEven :: "rat \<Rightarrow> int" where
  "roundHalfEven x =
     (let f = \<lfloor>x\<rfloor>; r = x - of_int f
      in if r < 1 / 2 then f else if 1 / 2 < r then f + 1 else if even f then f else f + 1)"

definition toBinary64 :: "rat \<Rightarrow> jsnum" where
  "toBinary64 q =
     (if q = 0 then Fin 0
      else
        let a = \<bar>q\<bar>;
            e = max (floorLog2 a) (- 1022);
            u = pow2 (e - 52);
            r = of_int (roundHalfEven (a / u)) * u
        in if pow2 1024 \<le> r then (if q < 0 then NegInf else PosInf)
           else Fin (if q < 0 then - r else r))"

subsection \<open>\<open>parseInt\<close> and \<open>Number\<close>\<close>

text \<open>
  Both follow ECMAScript on code units below 256. \<open>parseInt\<close> skips leading white
  space, reads a sign, switches to radix 16 after \<open>0x\<close>, and converts the longest
  prefix of digits; with no digit it returns \<open>NaN\<close>. \<open>Number\<close> trims white space
  on both sides, maps the empty string to 0, and otherwise needs the whole string to be a
  numeric literal: a signed decimal literal (with optional fraction and exponent), a signed
  \<open>Infinity\<close>, or an unsigned literal with prefix \<open>0x\<close>, \<open>0o\<close>, \<open>0b\<close>. Both return the
  Number value of what they read.
\<close>

definition isWhiteSpace :: "char \<Rightarrow> bool" where
  "isWhiteSpace c = ((of_char c :: nat) \<in> {9, 10, 11, 12, 13, 32, 160})"

definition digitValue :: "char \<Rightarrow> nat option" where
  "digitValue c =
     (let n = (of_char c :: nat) in
      if 48 \<le> n \<and> n \<le> 57 then Some (n - 48)
      else if 97 \<le> n \<and> n \<le> 122 then Some (n - 87)
      else if 65 \<le> n \<and> n \<le> 90 then Some (n - 55)
      else None)"

definition isRadixDigit :: "nat \<Rightarrow> char \<Rightarrow> bool" where
  "isRadixDigit r c = (case digitValue c of None \<Rightarrow> False | Some v \<Rightarrow> v < r)"

definition radixValue :: "nat \<Rightarrow> string \<Rightarrow> nat" where
  "radixValue r s =
     foldl (\<lambda>acc c. acc * r + (case digitValue c of None \<Rightarrow> 0 | Some v \<Rightarrow> v)) 0 s"

definition parseInt :: "string \<Rightarrow> jsnum" where
  "parseInt str =
     (let s = dropWhile isWhiteSpace str;
          neg = startsWith s ''-'';
          s1 = (if startsWith s ''+'' \<or> startsWith s ''-'' then tl s else s);
          hex = (startsWith s1 ''0x'' \<or> startsWith s1 ''0X'');
          s2 = (if hex then drop 2 s1 else s1);
          r = (if hex then 16 else 10);
          z = takeWhile (isRadixDigit r) s2
      in if z = [] then NaN
         else toBinary64 (of_int ((if neg then - 1 else 1) * int (radixValue r z))))"

definition trimWhiteSpace :: "string \<Rightarrow> string" where
  "trimWhiteSpace s = rev (dropWhile isWhiteSpace (rev (dropWhile isWhiteSpace s)))"

fun js_negate :: "jsnum \<Rightarrow> jsnum" where
  "js_negate NaN = NaN"
| "js_negate NegInf = PosInf"
| "js_negate (Fin a) = Fin (- a)"
| "js_negate PosInf = NegInf"

definition applyExponent :: "rat \<Rightarrow> int \<Rightarrow> rat" where
  "applyExponent m e = (if 0 \<le> e then m * 10 ^ nat e else m / 10 ^ nat (- e))"

definition parseExponentPart :: "string \<Rightarrow> int option" where
  "parseExponentPart r =
     (case r of
        [] \<Rightarrow> Some 0
      | c # t \<Rightarrow>
          if c = CHR ''e'' \<or> c = CHR ''E'' then
            (let neg = startsWith t ''-'';
                 ds = (if startsWith t ''+'' \<or> startsWith t ''-'' then tl t else t)
             in if ds \<noteq> [] \<and> list_all (isRadixDigit 10) ds
                then Some ((if neg then - 1 else 1) * int (radixValue 10 ds))
                else None)
          else None)"

definition parseUnsignedDecimal :: "string \<Rightarrow> jsnum option" where
  "parseUnsignedDecimal u =
     (if u = ''Infinity'' then Some PosInf
      else
        let ip = takeWhile (isRadixDigit 10) u;
            r1 = dropWhile (isRadixDigit 10) u;
            dot = startsWith r1 ''.'';
            fp = (if dot then takeWhile (isRadixDigit 10) (tl r1) else []);
            r2 = (if dot then dropWhile (isRadixDigit 10) (tl r1) else r1)
        in if ip = [] \<and> fp = [] then None
           else (case parseExponentPart r2 of
                   None \<Rightarrow> None
                 | Some e \<Rightarrow>
                     Some (toBinary64 (applyExponent
                       (of_nat (radixValue 10 ip) + of_nat (radixValue 10 fp) / 10 ^ length fp) e))))"

definition parseNonDecimal :: "nat \<Rightarrow> string \<Rightarrow> jsnum" where
  "parseNonDecimal r ds =
     (if ds \<noteq> [] \<and> list_all (isRadixDigit r) ds then toBinary64 (of_nat (radixValue r ds))
      else NaN)"

definition Number :: "string \<Rightarrow> jsnum" where
  "Number str =
     (let s = trimWhiteSpace str in
      if s = [] then Fin 0
      else if startsWith s ''0x'' \<or> startsWith s ''0X'' then parseNonDecimal 16 (drop 2 s)
      else if startsWith s ''0o'' \<or> startsWith s ''0O'' then parseNonDecimal 8 (drop 2 s)
      else if startsWith s ''0b'' \<or> startsWith s ''0B'' then parseNonDecimal 2 (drop 2 s)
      else
        let neg = startsWith s ''-'';
            u = (if startsWith s ''+'' \<or> startsWith s ''-'' then tl s else s)
        in (case parseUnsignedDecimal u of
              None \<Rightarrow> NaN
            | Some v \<Rightarrow> if neg then js_negate v else v))"

text \<open>\<open>Number.prototype.toString\<close> on a non-negative integer: its decimal digits.\<close>

fun toString :: "nat \<Rightarrow> string" where
  "toString n =
     (if n < 10 then [char_of (48 + n)] else toString (n div 10) @ [char_of (48 + n mod 10)])"

declare toString.simps [simp del]

text \<open>
  \<open>Array.prototype.sort\<close> with a comparator is stable, and with a consistent comparator
  its result is the one stable sorted arrangement. It is modelled by stable insertion:
  an element goes in front of the first later element that it does not exceed.
\<close>

fun insert_by :: "('a \<Rightarrow> 'a \<Rightarrow> rat) \<Rightarrow> 'a \<Rightarrow> 'a list \<Rightarrow> 'a list" where
  "insert_by cmp x [] = [x]"
| "insert_by cmp x (y # ys) =
     (if cmp x y \<le> 0 then x # y # ys else y # insert_by cmp x ys)"

definition array_sort :: "('a \<Rightarrow> 'a \<Rightarrow> rat) \<Rightarrow> 'a list \<Rightarrow> 'a list" where
  "array_sort cmp xs = foldr (insert_by cmp) xs []"

section \<open>Data model\<close>

text \<open>
  Modelled from the spec: the \<open>Property\<close> type, declared in the data module, which is
  not among the sources. It has an identifier, title, description, location, a numeric
  price, a type, numeric building and land areas, and the coordinates the map consumes.
  The numeric fields are finite numbers. \<open>NewPropertyData\<close> is \<open>Omit<Property, 'id'>\<close>,
  the payload of the add-property form; \<open>FormFields\<close> is what the user enters besides
  the coordinates.
\<close>

record FormFields =
  title :: string
  description :: string
  location :: string
  price :: rat
  type_prop :: string
  buildingArea :: rat
  landArea :: rat

record NewPropertyData = FormFields +
  lat :: rat
  lng :: rat

record Property = NewPropertyData +
  id_prop :: string

text \<open>The filter criteria, with the fields of the initial state of the component.\<close>

record FilterState =
  searchTerm :: string
  propertyType :: string
  priceSort :: string
  buildingArea :: string
  landArea :: string

text \<open>\<open>Partial<FilterState>\<close>: each field present or absent.\<close>

record PartialFilterState =
  searchTerm_upd :: "string option"
  propertyType_upd :: "string option"
  priceSort_upd :: "string option"
  buildingArea_upd :: "string option"
  landArea_upd :: "string option"

definition initialFilters :: FilterState where
  "initialFilters =
     \<lparr>searchTerm = [], propertyType = ''Semua'', priceSort = ''Default'',
      FilterState.buildingArea = ''Semua'', FilterState.landArea = ''Semua''\<rparr>"

section \<open>Filter and sort engine\<close>

text \<open>
  \<^verbatim>\<open>
  const parseAreaRange = (range: string): [number, number] => {
    if (range === 'Semua' || !range) return [0, Infinity];
    if (range.includes('+')) return [parseInt(range), Infinity];
    const [min, max] = range.split('-').map(Number);
    return [min, max];
  };
  \<close>
  The destructuring leaves \<open>max\<close> undefined when the descriptor has no \<open>-\<close>.
\<close>

definition parseAreaRange :: "string \<Rightarrow> jsnum option \<times> jsnum option" where
  "parseAreaRange rng =
     (if rng = ''Semua'' \<or> rng = [] then (Some (Fin 0), Some PosInf)
      else if includes_str rng ''+'' then (Some (parseInt rng), Some PosInf)
      else (case map Number (split_on CHR ''-'' rng) of
              [] \<Rightarrow> (None, None)
            | [a] \<Rightarrow> (Some a, None)
            | a # b # _ \<Rightarrow> (Some a, Some b)))"

text \<open>The predicate of the final \<open>filter\<close>, with the two parsed ranges.\<close>

definition propertyMatches ::
  "FilterState \<Rightarrow> jsnum option \<times> jsnum option \<Rightarrow> jsnum option \<times> jsnum option \<Rightarrow> Property \<Rightarrow> bool" where
  "propertyMatches filters buildingRange landRange property =
     (let (minBuildingArea, maxBuildingArea) = buildingRange;
          (minLandArea, maxLandArea) = landRange;
          searchTermMatch =
            (searchTerm filters = [] \<or>
             includes_str (toLowerCase (title property)) (toLowerCase (searchTerm filters)) \<or>
             includes_str (toLowerCase (description property)) (toLowerCase (searchTerm filters)) \<or>
             includes_str (toLowerCase (location property)) (toLowerCase (searchTerm filters)));
          propertyTypeMatch =
            (propertyType filters = ''Semua'' \<or> type_prop property = propertyType filters);
          buildingAreaMatch =
            (js_ge_slot (Fin (FormFields.buildingArea property)) minBuildingArea \<and>
             js_le_slot (Fin (FormFields.buildingArea property)) maxBuildingArea);
          landAreaMatch =
            (js_ge_slot (Fin (FormFields.landArea property)) minLandArea \<and>
             js_le_slot (Fin (FormFields.landArea property)) maxLandArea)
      in searchTermMatch \<and> propertyTypeMatch \<and> buildingAreaMatch \<and> landAreaMatch)"

text \<open>The sorting step on the copy of the collection.\<close>

definition sortProperties :: "string \<Rightarrow> Property list \<Rightarrow> Property list" where
  "sortProperties sortOrder properties =
     (if sortOrder = ''Harga Terendah'' then array_sort (\<lambda>a b. price a - price b) properties
      else if sortOrder = ''Harga Tertinggi'' then array_sort (\<lambda>a b. price b - price a) properties
      else properties)"

definition filteredProperties :: "Property list \<Rightarrow> FilterState \<Rightarrow> Property list" where
  "filteredProperties properties filters =
     (let sortedProperties = sortProperties (priceSort filters) properties
      in filter
           (propertyMatches filters
              (parseAreaRange (FilterState.buildingArea filters))
              (parseAreaRange (FilterState.landArea filters)))
           sortedProperties)"


section \<open>Selection set\<close>

text \<open>
  \<open>togglePropertySelection\<close> is the updater passed to \<open>setSelectedPropertyIds\<close>
  (\<open>toggleSelection\<close> below applies it to the state):
  \<^verbatim>\<open>prev.includes(propertyId) ? prev.filter(id => id !== propertyId) : [...prev, propertyId]\<close>
\<close>

definition togglePropertySelection :: "string \<Rightarrow> string list \<Rightarrow> string list" where
  "togglePropertySelection propertyId prev =
     (if propertyId \<in> set prev then filter (\<lambda>i. i \<noteq> propertyId) prev
      else prev @ [propertyId])"

section \<open>Component state and event handlers\<close>

text \<open>
  The state cells of \<open>PropertyListingsComponent\<close>, together with the \<open>view\<close> query
  parameter from which the view mode is derived. A coordinate pair \<open>{lat, lng}\<close> and a
  screen position \<open>{x, y}\<close> are pairs in that order.
\<close>

datatype ViewMode = ListView | MapView

record ListingsState =
  properties :: "Property list"
  hoveredPropertyId :: "string option"
  selectedPropertyIds :: "string list"
  viewParam :: "string option"
  isAddDrawerOpen :: bool
  selectedPropertyForCard :: "Property option"
  newPropertyCoords :: "(rat \<times> rat) option"
  cardPosition :: "(rat \<times> rat) option"
  filters :: FilterState

text \<open>\<^verbatim>\<open>const viewMode = searchParams.get('view') === 'list' ? 'list' : 'map';\<close>\<close>

definition viewMode :: "ListingsState \<Rightarrow> ViewMode" where
  "viewMode s = (if viewParam s = Some ''list'' then ListView else MapView)"

fun viewModeString :: "ViewMode \<Rightarrow> string" where
  "viewModeString ListView = ''list''"
| "viewModeString MapView = ''map''"

text \<open>\<open>setViewMode\<close> pushes the route with the \<open>view\<close> parameter set to the mode.\<close>

definition setViewMode :: "ViewMode \<Rightarrow> ListingsState \<Rightarrow> ListingsState" where
  "setViewMode mode s = s\<lparr>viewParam := Some (viewModeString mode)\<rparr>"

text \<open>
  The effect with dependency list \<open>[viewMode]\<close> clears the selection and the floating
  card. After the render that follows an event handler it runs when the view mode of the
  new state differs from the one before the event; \<open>afterEvent\<close> is a handler followed
  by that step.
\<close>

definition viewModeEffect :: "ListingsState \<Rightarrow> ListingsState" where
  "viewModeEffect s = s\<lparr>selectedPropertyIds := [], selectedPropertyForCard := None\<rparr>"

definition runEffects :: "ListingsState \<Rightarrow> ListingsState \<Rightarrow> ListingsState" where
  "runEffects before s = (if viewMode s \<noteq> viewMode before then viewModeEffect s else s)"

definition afterEvent :: "(ListingsState \<Rightarrow> ListingsState) \<Rightarrow> ListingsState \<Rightarrow> ListingsState" where
  "afterEvent handler s = runEffects s (handler s)"

text \<open>
  The header's \<open>onViewModeChange\<close>:
  \<^verbatim>\<open>(mode) => { setViewMode(mode); setSelectedPropertyForCard(null); }\<close>
\<close>

definition onViewModeChange :: "ViewMode \<Rightarrow> ListingsState \<Rightarrow> ListingsState" where
  "onViewModeChange mode s = (setViewMode mode s)\<lparr>selectedPropertyForCard := None\<rparr>"

text \<open>\<open>{ ...prev, ...newFilters }\<close>: a field of the update, when present, replaces the old one.\<close>

definition mergeFilters :: "FilterState \<Rightarrow> PartialFilterState \<Rightarrow> FilterState" where
  "mergeFilters prev newFilters =
     \<lparr>searchTerm = (case searchTerm_upd newFilters of None \<Rightarrow> searchTerm prev | Some v \<Rightarrow> v),
      propertyType = (case propertyType_upd newFilters of None \<Rightarrow> propertyType prev | Some v \<Rightarrow> v),
      priceSort = (case priceSort_upd newFilters of None \<Rightarrow> priceSort prev | Some v \<Rightarrow> v),
      FilterState.buildingArea =
        (case buildingArea_upd newFilters of None \<Rightarrow> FilterState.buildingArea prev | Some v \<Rightarrow> v),
      FilterState.landArea =
        (case landArea_upd newFilters of None \<Rightarrow> FilterState.landArea prev | Some v \<Rightarrow> v)\<rparr>"

definition handleFilterChange :: "PartialFilterState \<Rightarrow> ListingsState \<Rightarrow> ListingsState" where
  "handleFilterChange newFilters s =
     s\<lparr>filters := mergeFilters (filters s) newFilters, selectedPropertyForCard := None\<rparr>"

definition toggleSelection :: "string \<Rightarrow> ListingsState \<Rightarrow> ListingsState" where
  "toggleSelection propertyId s =
     s\<lparr>selectedPropertyIds := togglePropertySelection propertyId (selectedPropertyIds s)\<rparr>"

text \<open>The derived visible set of a state.\<close>

definition visibleSet :: "ListingsState \<Rightarrow> Property list" where
  "visibleSet s = filteredProperties (properties s) (filters s)"

subsection \<open>Marker click and card placement\<close>

text \<open>
  A map event carries a DOM event, which is a mouse event with client coordinates or some
  other event, and possibly a geographic position. The viewport gives the window's inner
  size and the header element's \<open>offsetHeight\<close> (absent when the ref is not attached).
\<close>

datatype DomEvent = MouseEvent rat rat | OtherEvent

record MapMouseEvent =
  domEvent :: DomEvent
  latLng :: "(rat \<times> rat) option"

record Viewport =
  headerOffsetHeight :: "rat option"
  innerWidth :: rat
  innerHeight :: rat

definition CARD_WIDTH :: rat where "CARD_WIDTH = 384"
definition CARD_HEIGHT :: rat where "CARD_HEIGHT = 300"
definition PADDING :: rat where "PADDING = 16"

text \<open>\<^verbatim>\<open>const headerHeight = headerRef.current?.offsetHeight || 0;\<close>\<close>

definition headerHeight :: "Viewport \<Rightarrow> rat" where
  "headerHeight vp = (case headerOffsetHeight vp of None \<Rightarrow> 0 | Some h \<Rightarrow> h)"

text \<open>The four clamping steps on \<open>x\<close> and \<open>y\<close>, in the order of the source.\<close>

definition clampedPosition :: "Viewport \<Rightarrow> rat \<Rightarrow> rat \<Rightarrow> rat \<times> rat" where
  "clampedPosition vp clickX clickY =
     (let windowWidth = innerWidth vp;
          windowHeight = innerHeight vp;
          x0 = clickX + PADDING;
          y0 = clickY + PADDING;
          x1 = (if x0 < PADDING then PADDING else x0);
          x2 = (if x1 + CARD_WIDTH > windowWidth - PADDING
                then windowWidth - CARD_WIDTH - PADDING else x1);
          y1 = (if y0 + CARD_HEIGHT > windowHeight - PADDING
                then windowHeight - CARD_HEIGHT - PADDING else y0);
          y2 = (if y1 < headerHeight vp + PADDING then headerHeight vp + PADDING else y1)
      in (x2, y2))"

definition handleMarkerClick ::
  "Viewport \<Rightarrow> Property \<Rightarrow> MapMouseEvent \<Rightarrow> ListingsState \<Rightarrow> ListingsState" where
  "handleMarkerClick vp property event s =
     (let s1 = s\<lparr>selectedPropertyForCard := Some property\<rparr>
      in case domEvent event of
           MouseEvent clickX clickY \<Rightarrow> s1\<lparr>cardPosition := Some (clampedPosition vp clickX clickY)\<rparr>
         | OtherEvent \<Rightarrow> s1\<lparr>cardPosition := None\<rparr>)"

text \<open>
  The inline style of the floating card:
  \<^verbatim>\<open>cardPosition ? { top: cardPosition.y, left: cardPosition.x } : { bottom: '1rem', left: '1rem' }\<close>
  The card is rendered only while a property is selected for it.
\<close>

datatype CardStyle = TopLeft rat rat | BottomLeft string string

definition cardStyle :: "ListingsState \<Rightarrow> CardStyle option" where
  "cardStyle s =
     (case selectedPropertyForCard s of
        None \<Rightarrow> None
      | Some p \<Rightarrow>
          (case cardPosition s of
             Some (x, y) \<Rightarrow> Some (TopLeft y x)
           | None \<Rightarrow> Some (BottomLeft ''1rem'' ''1rem'')))"

subsection \<open>Adding a property\<close>

definition handleMapClick :: "MapMouseEvent \<Rightarrow> ListingsState \<Rightarrow> ListingsState" where
  "handleMapClick e s =
     (let s1 = s\<lparr>selectedPropertyForCard := None\<rparr>
      in case latLng e of
           Some coords \<Rightarrow> s1\<lparr>newPropertyCoords := Some coords, isAddDrawerOpen := True\<rparr>
         | None \<Rightarrow> s1)"

definition handleAddDrawerOpen :: "bool \<Rightarrow> ListingsState \<Rightarrow> ListingsState" where
  "handleAddDrawerOpen isOpen s =
     (let s1 = s\<lparr>isAddDrawerOpen := isOpen\<rparr>
      in if \<not> isOpen then s1\<lparr>newPropertyCoords := None\<rparr> else s1)"

text \<open>
  \<^verbatim>\<open>
  const newProperty: Property = { id: (properties.length + 100).toString(), ...newPropertyData };
  setProperties(prev => [...prev, newProperty]);
  setIsAddDrawerOpen(false);
  setNewPropertyCoords(null);
  \<close>
\<close>

definition newPropertyId :: "Property list \<Rightarrow> string" where
  "newPropertyId ps = toString (length ps + 100)"

definition handleAddProperty :: "NewPropertyData \<Rightarrow> ListingsState \<Rightarrow> ListingsState" where
  "handleAddProperty newPropertyData s =
     (let newProperty =
            NewPropertyData.extend newPropertyData (Property.fields (newPropertyId (properties s)))
      in s\<lparr>properties := properties s @ [newProperty],
           isAddDrawerOpen := False,
           newPropertyCoords := None\<rparr>)"

text \<open>
  Modelled from the spec: the add-property form component, which is not among the sources.
  It is handed the captured coordinates as initial coordinates and, on submit, emits the
  payload made of the entered fields and those coordinates.
\<close>

definition formPayload :: "FormFields \<Rightarrow> rat \<times> rat \<Rightarrow> NewPropertyData" where
  "formPayload entered coords =
     FormFields.extend entered (NewPropertyData.fields (fst coords) (snd coords))"

subsection \<open>Initial state and sample data\<close>

text \<open>
  The state right after mounting with \<open>initialPropertiesData\<close>: every \<open>useState\<close> at its
  initial value and no \<open>view\<close> parameter in the URL.
\<close>

definition initialState :: "Property list \<Rightarrow> ListingsState" where
  "initialState initialPropertiesData =
     \<lparr>properties = initialPropertiesData, hoveredPropertyId = None, selectedPropertyIds = [],
      viewParam = None, isAddDrawerOpen = False, selectedPropertyForCard = None,
      newPropertyCoords = None, cardPosition = None, filters = initialFilters\<rparr>"

text \<open>
  Sample values for the concrete instances below: a property with a given identifier,
  price, building area and land area, the entered fields of a form with a given title,
  and the filter update that changes no field.
\<close>

definition exampleProperty :: "string \<Rightarrow> rat \<Rightarrow> rat \<Rightarrow> rat \<Rightarrow> Property" where
  "exampleProperty i p b l =
     \<lparr>title = ''Rumah'', description = [], location = ''Jakarta'', price = p,
      type_prop = ''Rumah'', FormFields.buildingArea = b, FormFields.landArea = l,
      lat = 0, lng = 0, id_prop = i\<rparr>"

definition exampleFields :: "string \<Rightarrow> FormFields" where
  "exampleFields t =
     \<lparr>title = t, description = [], location = ''Bandung'', price = 250,
      type_prop = ''Rumah'', FormFields.buildingArea = 70, FormFields.landArea = 100\<rparr>"

definition noFilterChange :: PartialFilterState where
  "noFilterChange =
     \<lparr>searchTerm_upd = None, propertyType_upd = None, priceSort_upd = None,
      buildingArea_upd = None, landArea_upd = None\<rparr>"

section \<open>Properties of the selection set\<close>

lemma filter_neq_absent: "x \<notin> set xs \<Longrightarrow> filter (\<lambda>i. i \<noteq> x) xs = xs"
  by (induction xs) auto

text \<open>
  C3, as stated: toggling twice with the same id restores contents and order, also when
  the id was present at the start. This fails: with the selection \<open>[a, b]\<close>, toggling
  \<open>a\<close> removes it and toggling again appends it, giving \<open>[b, a]\<close>.
\<close>

theorem C3_toggle_twice_counterexample:
  "togglePropertySelection ''a'' (togglePropertySelection ''a'' [''a'', ''b'']) \<noteq> [''a'', ''b'']"
  by (simp add: togglePropertySelection_def)

text \<open>
  C3, amended: toggling twice with the same id restores the selection exactly when the id
  was absent at the start; when it was present, the result is the selection without the
  id followed by the id, so the selected ids are the same set but the id has moved to the
  end.
\<close>

theorem C3_toggle_twice:
  "(propertyId \<notin> set prev \<longrightarrow>
      togglePropertySelection propertyId (togglePropertySelection propertyId prev) = prev) \<and>
   (propertyId \<in> set prev \<longrightarrow>
      togglePropertySelection propertyId (togglePropertySelection propertyId prev)
        = filter (\<lambda>i. i \<noteq> propertyId) prev @ [propertyId]) \<and>
   set (togglePropertySelection propertyId (togglePropertySelection propertyId prev)) = set prev"
  by (auto simp: togglePropertySelection_def filter_neq_absent)

theorem C3_toggle_twice_witness:
  "togglePropertySelection ''c'' (togglePropertySelection ''c'' [''a'', ''b'']) = [''a'', ''b''] \<and>
   togglePropertySelection ''a'' (togglePropertySelection ''a'' [''a'', ''b'']) = [''b'', ''a'']"
  using C3_toggle_twice [of "''c''" "[''a'', ''b'']"] C3_toggle_twice [of "''a''" "[''a'', ''b'']"]
  by simp

section \<open>The visible set under the sentinel filters\<close>

lemma js_ge_slot_Fin [simp]: "js_ge_slot (Fin a) (Some (Fin b)) = (b \<le> a)"
  by (simp add: js_ge_slot_def)

lemma js_le_slot_Fin [simp]: "js_le_slot (Fin a) (Some (Fin b)) = (a \<le> b)"
  by (simp add: js_le_slot_def)

lemma js_le_slot_PosInf [simp]: "js_le_slot (Fin a) (Some PosInf) = True"
  by (simp add: js_le_slot_def)

lemma js_le_NaN_right [simp]: "js_le a NaN = False"
  by (cases a) simp_all

lemma js_ge_slot_NaN: "ToNumber b = NaN \<Longrightarrow> js_ge_slot a b = False"
  by (simp add: js_ge_slot_def)

lemma js_le_slot_NaN: "ToNumber b = NaN \<Longrightarrow> js_le_slot a b = False"
  by (simp add: js_le_slot_def)

lemma parseAreaRange_Semua: "parseAreaRange ''Semua'' = (Some (Fin 0), Some PosInf)"
  by (simp add: parseAreaRange_def)


lemma filteredProperties_eq:
  "filteredProperties ps f =
     filter (propertyMatches f (parseAreaRange (FilterState.buildingArea f))
               (parseAreaRange (FilterState.landArea f)))
       (sortProperties (priceSort f) ps)"
  by (simp add: filteredProperties_def)

lemma propertyMatches_sentinel:
  "propertyMatches initialFilters (Some (Fin 0), Some PosInf) (Some (Fin 0), Some PosInf) p
     = (0 \<le> FormFields.buildingArea p \<and> 0 \<le> FormFields.landArea p)"
  by (simp add: propertyMatches_def initialFilters_def)

lemma filteredProperties_sentinel:
  "filteredProperties props initialFilters
     = filter (\<lambda>p. 0 \<le> FormFields.buildingArea p \<and> 0 \<le> FormFields.landArea p) props"
proof -
  have s: "sortProperties (priceSort initialFilters) props = props"
    by (simp add: sortProperties_def initialFilters_def)
  have b: "parseAreaRange (FilterState.buildingArea initialFilters) = (Some (Fin 0), Some PosInf)"
    by (simp add: initialFilters_def parseAreaRange_Semua)
  have l: "parseAreaRange (FilterState.landArea initialFilters) = (Some (Fin 0), Some PosInf)"
    by (simp add: initialFilters_def parseAreaRange_Semua)
  show ?thesis
    unfolding filteredProperties_def Let_def s b l
    by (rule filter_cong [OF refl]) (simp add: propertyMatches_sentinel)
qed

text \<open>
  C1, as stated: with every filter at its sentinel value the visible set is the full
  collection, for every collection. This fails for a property whose building area is
  negative: the sentinel range is \<open>[0, Infinity]\<close> and \<open>-1 >= 0\<close> is false, so the
  property is filtered out.
\<close>

theorem C1_sentinel_filters_counterexample:
  "filteredProperties [exampleProperty ''1'' 500 (- 1) 120] initialFilters
     \<noteq> [exampleProperty ''1'' 500 (- 1) 120]"
  by (simp add: filteredProperties_sentinel exampleProperty_def)

text \<open>
  C1, amended: with every filter at its sentinel value (empty search term, type
  \<open>Semua\<close>, sort \<open>Default\<close>, both areas \<open>Semua\<close>), the visible set consists of the
  properties whose building area and land area are at least 0, in collection order;
  so it equals the full collection, in the same order, for every collection in which no
  property has a negative building or land area.
\<close>

theorem C1_sentinel_filters_visible_set:
  "filteredProperties props initialFilters
     = filter (\<lambda>p. 0 \<le> FormFields.buildingArea p \<and> 0 \<le> FormFields.landArea p) props \<and>
   ((\<forall>p \<in> set props. 0 \<le> FormFields.buildingArea p \<and> 0 \<le> FormFields.landArea p)
      \<longrightarrow> filteredProperties props initialFilters = props)"
  by (simp add: filteredProperties_sentinel)

theorem C1_sentinel_filters_visible_set_witness:
  "filteredProperties [exampleProperty ''1'' 500 90 120, exampleProperty ''2'' 300 0 45] initialFilters
     = [exampleProperty ''1'' 500 90 120, exampleProperty ''2'' 300 0 45]"
  using C1_sentinel_filters_visible_set
    [of "[exampleProperty ''1'' 500 90 120, exampleProperty ''2'' 300 0 45]"]
  by (simp add: exampleProperty_def)

section \<open>Range descriptors\<close>

subsection \<open>Integers up to \<open>2^53\<close> are their own Number value\<close>

lemma bitLength_pos: "0 < n \<Longrightarrow> bitLength n = 1 + bitLength (n div 2)"
  by (subst bitLength.simps) simp

lemma bitLength_nonpos: "n \<le> 0 \<Longrightarrow> bitLength n = 0"
  by (subst bitLength.simps) simp

lemma bitLength_nonneg: "0 \<le> bitLength n"
proof (induction n rule: bitLength.induct)
  case (1 n)
  show ?case
  proof (cases "n \<le> 0")
    case True
    then show ?thesis by (simp add: bitLength_nonpos)
  next
    case False
    with "1.IH" show ?thesis by (simp add: bitLength_pos)
  qed
qed

lemma bitLength_bounds:
  "0 < n \<Longrightarrow> 2 ^ nat (bitLength n - 1) \<le> n \<and> n < 2 ^ nat (bitLength n)"
proof (induction n rule: bitLength.induct)
  case (1 n)
  show ?case
  proof (cases "n div 2 = 0")
    case True
    with "1.prems" have "n = 1" by presburger
    then show ?thesis
      by (simp add: bitLength_pos bitLength_nonpos)
  next
    case False
    with "1.prems" have p: "0 < n div 2" by presburger
    with "1.IH" "1.prems" have ih: "2 ^ nat (bitLength (n div 2) - 1) \<le> n div 2"
        "n div 2 < 2 ^ nat (bitLength (n div 2))"
      by simp_all
    have b: "0 < bitLength (n div 2)"
      using bitLength_pos [OF p] bitLength_nonneg [of "n div 2 div 2"] by simp
    have e: "bitLength n = 1 + bitLength (n div 2)"
      using "1.prems" by (rule bitLength_pos)
    have s1: "nat (bitLength n - 1) = Suc (nat (bitLength (n div 2) - 1))"
      using b e by simp
    have s2: "nat (bitLength n) = Suc (nat (bitLength (n div 2)))"
      using b e by simp
    have "2 * 2 ^ nat (bitLength (n div 2) - 1) \<le> n"
      using ih(1) by presburger
    moreover have "n < 2 * 2 ^ nat (bitLength (n div 2))"
      using ih(2) by presburger
    ultimately show ?thesis
      unfolding s1 s2 by simp
  qed
qed

lemma bitLength_one: "bitLength 1 = 1"
  by (simp add: bitLength_pos bitLength_nonpos)

lemma floorLog2_of_int:
  assumes "0 < n"
  shows "floorLog2 (of_int n) = bitLength n - 1"
proof -
  have b: "0 \<le> bitLength n - 1"
    using bitLength_pos [OF assms] bitLength_nonneg [of "n div 2"] by simp
  have "(2::int) ^ nat (bitLength n - 1) \<le> n"
    using bitLength_bounds [OF assms] by simp
  then have "(of_int (2 ^ nat (bitLength n - 1)) :: rat) \<le> of_int n"
    by (simp only: of_int_le_iff)
  then have "pow2 (bitLength n - 1) \<le> of_int n"
    using b by (simp add: pow2_def)
  then show ?thesis
    by (simp add: floorLog2_def bitLength_one)
qed

lemma roundHalfEven_of_int: "roundHalfEven (of_int k) = k"
  by (simp add: roundHalfEven_def)

lemma toBinary64_safe_int:
  assumes "0 \<le> n" "n \<le> 2 ^ 53"
  shows "toBinary64 (of_int n) = Fin (of_int n)"
proof (cases "n = 0")
  case True
  then show ?thesis by (simp add: toBinary64_def)
next
  case False
  with assms(1) have pos: "0 < n" by simp
  define b where "b = bitLength n - 1"
  have b0: "0 \<le> b"
    unfolding b_def using bitLength_pos [OF pos] bitLength_nonneg [of "n div 2"] by simp
  have lo: "(2::int) ^ nat b \<le> n"
    unfolding b_def using bitLength_bounds [OF pos] by simp
  have b53: "b \<le> 53"
  proof (rule ccontr)
    assume "\<not> b \<le> 53"
    then have "54 \<le> nat b" by simp
    then have "(2::int) ^ 54 \<le> 2 ^ nat b"
      by (intro power_increasing) simp_all
    with lo assms(2) show False by simp
  qed
  have fl: "max (floorLog2 (of_int n)) (- 1022) = b"
    using pos b0 by (simp add: floorLog2_of_int b_def)
  have r: "of_int (roundHalfEven ((of_int n :: rat) / pow2 (b - 52))) * pow2 (b - 52) = of_int n"
  proof (cases "b \<le> 52")
    case True
    define k where "k = nat (52 - b)"
    have u: "pow2 (b - 52) = 1 / 2 ^ k"
      using True by (cases "b = 52") (simp_all add: pow2_def k_def)
    have "(of_int n :: rat) / pow2 (b - 52) = of_int (n * 2 ^ k)"
      by (simp add: u)
    then show ?thesis
      by (simp only: roundHalfEven_of_int) (simp add: u)
  next
    case False
    with b53 have b: "b = 53" by simp
    with lo assms(2) have n: "n = 2 ^ 53" by simp
    have "(of_int n :: rat) / pow2 (b - 52) = of_int (2 ^ 52)"
      by (simp add: n b pow2_def)
    then show ?thesis
      by (simp only: roundHalfEven_of_int) (simp add: n b pow2_def)
  qed
  have small: "\<not> pow2 1024 \<le> (of_int n :: rat)"
  proof -
    have "(of_int n :: rat) \<le> of_int (2 ^ 53)"
      using assms(2) by (simp only: of_int_le_iff)
    then show ?thesis by (simp add: pow2_def)
  qed
  show ?thesis
    using pos small by (simp add: toBinary64_def Let_def fl r)
qed

lemma toBinary64_safe_nat: "n \<le> 2 ^ 53 \<Longrightarrow> toBinary64 (of_nat n) = Fin (of_nat n)"
  using toBinary64_safe_int [of "int n"] by simp



subsection \<open>Parsing digit strings\<close>

lemma isRadixDigit_10_iff:
  "isRadixDigit 10 c = (48 \<le> (of_char c :: nat) \<and> (of_char c :: nat) \<le> 57)"
  by (auto simp: isRadixDigit_def digitValue_def Let_def)

lemma digit_not_special:
  assumes "isRadixDigit 10 c"
  shows "\<not> isWhiteSpace c" "c \<noteq> CHR ''+''" "c \<noteq> CHR ''-''" "c \<noteq> CHR ''I''" "c \<noteq> CHR ''S''"
  using assms by (auto simp: isRadixDigit_10_iff isWhiteSpace_def)

lemma not_digit_chars:
  "\<not> isRadixDigit 10 CHR ''x''" "\<not> isRadixDigit 10 CHR ''X''"
  "\<not> isRadixDigit 10 CHR ''o''" "\<not> isRadixDigit 10 CHR ''O''"
  "\<not> isRadixDigit 10 CHR ''b''" "\<not> isRadixDigit 10 CHR ''B''"
  "\<not> isRadixDigit 10 CHR ''+''" "\<not> isRadixDigit 10 CHR ''-''"
  by (simp_all add: isRadixDigit_10_iff)

lemma includes_str_char: "includes_str s [c] = (c \<in> set s)"
  by (induction s) auto



lemma dropWhile_hd_id: "xs \<noteq> [] \<Longrightarrow> \<not> P (hd xs) \<Longrightarrow> dropWhile P xs = xs"
  by (cases xs) auto



lemma startsWith_single: "startsWith t [b] = (t \<noteq> [] \<and> hd t = b)"
  by (cases t) auto

lemma no_prefix2:
  assumes "ds \<noteq> []" "list_all (isRadixDigit 10) ds" "\<not> isRadixDigit 10 b" "\<not> startsWith t [b]"
  shows "\<not> startsWith (ds @ t) [a, b]"
proof (cases ds)
  case Nil
  with assms(1) show ?thesis by simp
next
  case (Cons d ds')
  show ?thesis
  proof (cases ds')
    case Nil
    with Cons assms(4) show ?thesis by simp
  next
    case (Cons d' ds'')
    with \<open>ds = d # ds'\<close> assms(2,3) show ?thesis by auto
  qed
qed






text \<open>
  \<open>parseInt\<close> reads the digits in front of the first character that is not a digit
  (unless that character opens a hexadecimal prefix).
\<close>

lemma parseInt_digits_prefix:
  assumes "ds \<noteq> []" "list_all (isRadixDigit 10) ds"
    and "t \<noteq> []" "\<not> isRadixDigit 10 (hd t)" "hd t \<noteq> CHR ''x''" "hd t \<noteq> CHR ''X''"
  shows "parseInt (ds @ t) = toBinary64 (of_nat (radixValue 10 ds))"
proof -
  have h: "isRadixDigit 10 (hd ds)"
    using assms(1,2) by (cases ds) auto
  have w: "dropWhile isWhiteSpace (ds @ t) = ds @ t"
    using assms(1) h by (intro dropWhile_hd_id) (simp_all add: digit_not_special(1))
  have s: "\<not> startsWith (ds @ t) ''+''" "\<not> startsWith (ds @ t) ''-''"
    using assms(1) h by (cases ds; auto simp: digit_not_special)+
  have p: "\<not> startsWith (ds @ t) ''0x''" "\<not> startsWith (ds @ t) ''0X''"
    using assms(5,6)
    by (intro no_prefix2 [OF assms(1,2)]; simp add: not_digit_chars startsWith_single)+
  have "takeWhile (isRadixDigit 10) t = []"
    using assms(3,4) by (cases t) auto
  then have z: "takeWhile (isRadixDigit 10) (ds @ t) = ds"
    using assms(2) by (simp add: takeWhile_append2 list_all_iff)
  show ?thesis
    using assms(1) by (simp add: parseInt_def w s p z)
qed

lemma parseAreaRange_plus_prefix:
  assumes "ds \<noteq> []" "list_all (isRadixDigit 10) ds"
    and "CHR ''+'' \<in> set t" "\<not> isRadixDigit 10 (hd t)" "hd t \<noteq> CHR ''x''" "hd t \<noteq> CHR ''X''"
  shows "parseAreaRange (ds @ t) = (Some (toBinary64 (of_nat (radixValue 10 ds))), Some PosInf)"
proof -
  have t: "t \<noteq> []"
    using assms(3) by auto
  have "hd ds \<noteq> CHR ''S''"
    using assms(1,2) by (cases ds) (auto simp: digit_not_special)
  then have "ds @ t \<noteq> ''Semua''"
    using assms(1) by (cases ds) auto
  then show ?thesis
    using assms(1,3)
    by (simp add: parseAreaRange_def includes_str_char
        parseInt_digits_prefix [OF assms(1,2) t assms(4,5,6)])
qed

lemma parseAreaRange_plus:
  assumes "ds \<noteq> []" "list_all (isRadixDigit 10) ds"
  shows "parseAreaRange (ds @ ''+'') = (Some (toBinary64 (of_nat (radixValue 10 ds))), Some PosInf)"
  by (rule parseAreaRange_plus_prefix [OF assms]) (simp_all add: not_digit_chars)


subsection \<open>The building-area filter alone\<close>

lemma filteredProperties_buildingRange:
  assumes "parseAreaRange d = (Some (Fin lo), hi)"
  shows "filteredProperties props (initialFilters\<lparr>FilterState.buildingArea := d\<rparr>)
           = filter (\<lambda>p. lo \<le> FormFields.buildingArea p \<and>
                          js_le_slot (Fin (FormFields.buildingArea p)) hi \<and>
                          0 \<le> FormFields.landArea p) props"
proof -
  let ?f = "initialFilters\<lparr>FilterState.buildingArea := d\<rparr>"
  have s: "sortProperties (priceSort ?f) props = props"
    by (simp add: sortProperties_def initialFilters_def)
  have b: "parseAreaRange (FilterState.buildingArea ?f) = (Some (Fin lo), hi)"
    using assms by simp
  have l: "parseAreaRange (FilterState.landArea ?f) = (Some (Fin 0), Some PosInf)"
    by (simp add: initialFilters_def parseAreaRange_Semua)
  have m: "propertyMatches ?f (Some (Fin lo), hi) (Some (Fin 0), Some PosInf) p
             = (lo \<le> FormFields.buildingArea p \<and>
                js_le_slot (Fin (FormFields.buildingArea p)) hi \<and>
                0 \<le> FormFields.landArea p)" for p
    by (simp add: propertyMatches_def initialFilters_def)
  show ?thesis
    unfolding filteredProperties_def Let_def s b l
    by (rule filter_cong [OF refl]) (simp add: m)
qed

lemma parseAreaRange_100plus: "parseAreaRange ''100+'' = (Some (Fin 100), Some PosInf)"
proof -
  have "parseAreaRange (''100'' @ ''+'')
          = (Some (toBinary64 (of_nat (radixValue 10 ''100''))), Some PosInf)"
    by (rule parseAreaRange_plus) (simp_all add: isRadixDigit_10_iff)
  moreover have "radixValue 10 ''100'' = 100"
    by (simp add: radixValue_def digitValue_def)
  moreover have "toBinary64 (of_nat 100) = Fin (of_nat 100)"
    by (rule toBinary64_safe_nat) simp
  ultimately show ?thesis by simp
qed

lemma filteredProperties_100plus:
  "filteredProperties props (initialFilters\<lparr>FilterState.buildingArea := ''100+''\<rparr>)
     = filter (\<lambda>p. 100 \<le> FormFields.buildingArea p \<and> 0 \<le> FormFields.landArea p) props"
  using filteredProperties_buildingRange [OF parseAreaRange_100plus, of props] by simp





section \<open>Unparsed bounds\<close>

lemma propertyMatches_NaN:
  assumes "ToNumber (fst br) = NaN \<or> ToNumber (snd br) = NaN \<or>
           ToNumber (fst lr) = NaN \<or> ToNumber (snd lr) = NaN"
  shows "\<not> propertyMatches f br lr p"
  using assms
  by (cases br; cases lr) (auto simp: propertyMatches_def js_ge_slot_NaN js_le_slot_NaN)

text \<open>
  C10: for every collection, when a bound of the building-area or of the land-area
  descriptor comes out of \<open>parseAreaRange\<close> as \<open>NaN\<close> (or undefined, which compares as
  \<open>NaN\<close>), the visible set is empty, because every comparison with \<open>NaN\<close> is false.
  Such descriptors are for instance \<open>abc+\<close>, \<open>a-200\<close> and \<open>100-b\<close>.
\<close>

theorem C10_unparsed_bound_empties_visible_set:
  assumes "ToNumber (fst (parseAreaRange (FilterState.buildingArea f))) = NaN \<or>
           ToNumber (snd (parseAreaRange (FilterState.buildingArea f))) = NaN \<or>
           ToNumber (fst (parseAreaRange (FilterState.landArea f))) = NaN \<or>
           ToNumber (snd (parseAreaRange (FilterState.landArea f))) = NaN"
  shows "filteredProperties props f = []"
  unfolding filteredProperties_def Let_def
  by (simp add: propertyMatches_NaN [OF assms])

theorem C10_unparsed_bound_empties_visible_set_witness:
  "ToNumber (fst (parseAreaRange ''abc+'')) = NaN \<and>
   ToNumber (fst (parseAreaRange ''a-200'')) = NaN \<and>
   ToNumber (snd (parseAreaRange ''100-b'')) = NaN \<and>
   filteredProperties [exampleProperty ''1'' 500 90 120]
     (initialFilters\<lparr>FilterState.buildingArea := ''abc+''\<rparr>) = [] \<and>
   filteredProperties [exampleProperty ''1'' 500 90 120]
     (initialFilters\<lparr>FilterState.buildingArea := ''a-200''\<rparr>) = [] \<and>
   filteredProperties [exampleProperty ''1'' 500 90 120]
     (initialFilters\<lparr>FilterState.landArea := ''100-b''\<rparr>) = []"
proof -
  have n: "parseInt ''abc+'' = NaN" "Number ''a'' = NaN" "Number ''b'' = NaN"
    by code_simp+
  have a: "ToNumber (fst (parseAreaRange ''abc+'')) = NaN"
    by (simp add: parseAreaRange_def n)
  have b: "ToNumber (fst (parseAreaRange ''a-200'')) = NaN"
    by (simp add: parseAreaRange_def n)
  have c: "ToNumber (snd (parseAreaRange ''100-b'')) = NaN"
    by (simp add: parseAreaRange_def n)
  show ?thesis
    using a b c
      C10_unparsed_bound_empties_visible_set
        [of "initialFilters\<lparr>FilterState.buildingArea := ''abc+''\<rparr>" "[exampleProperty ''1'' 500 90 120]"]
      C10_unparsed_bound_empties_visible_set
        [of "initialFilters\<lparr>FilterState.buildingArea := ''a-200''\<rparr>" "[exampleProperty ''1'' 500 90 120]"]
      C10_unparsed_bound_empties_visible_set
        [of "initialFilters\<lparr>FilterState.landArea := ''100-b''\<rparr>" "[exampleProperty ''1'' 500 90 120]"]
    by simp
qed

section \<open>Sorting by price\<close>

text \<open>
  With the two comparators of the source, stable insertion is the library's stable
  insertion sort on the price, respectively on the negated price.
\<close>

lemma insert_by_asc: "insert_by (\<lambda>a b. price a - price b) x ys = insort_key price x ys"
  by (induction ys) auto

lemma insert_by_desc:
  "insert_by (\<lambda>a b. price b - price a) x ys = insort_key (\<lambda>p. - price p) x ys"
  by (induction ys) auto

lemma array_sort_asc: "array_sort (\<lambda>a b. price a - price b) xs = sort_key price xs"
  by (induction xs) (simp_all add: array_sort_def insert_by_asc)

lemma array_sort_desc:
  "array_sort (\<lambda>a b. price b - price a) xs = sort_key (\<lambda>p. - price p) xs"
  by (induction xs) (simp_all add: array_sort_def insert_by_desc)

lemma sortProperties_asc: "sortProperties ''Harga Terendah'' ps = sort_key price ps"
  by (simp add: sortProperties_def array_sort_asc)

lemma sortProperties_desc: "sortProperties ''Harga Tertinggi'' ps = sort_key (\<lambda>p. - price p) ps"
  by (simp add: sortProperties_def array_sort_desc)

lemma sortProperties_other:
  "v \<noteq> ''Harga Terendah'' \<Longrightarrow> v \<noteq> ''Harga Tertinggi'' \<Longrightarrow> sortProperties v ps = ps"
  by (simp add: sortProperties_def)

lemma propertyMatches_priceSort:
  "propertyMatches (f\<lparr>priceSort := v\<rparr>) br lr = propertyMatches f br lr"
  by (rule ext) (simp add: propertyMatches_def)

lemma sorted_desc_map:
  "sorted (map (\<lambda>p. - price p) xs) = sorted_wrt (\<lambda>a b. price b \<le> price a) xs"
  by (induction xs) auto

lemma sorted_asc_map: "sorted (map price xs) = sorted_wrt (\<lambda>a b. price a \<le> price b) xs"
  by (induction xs) auto

lemma filteredProperties_asc:
  assumes "priceSort f = ''Harga Terendah''"
  shows "filteredProperties ps f
           = sort_key price (filteredProperties ps (f\<lparr>priceSort := ''Default''\<rparr>))"
  by (simp add: filteredProperties_eq assms sortProperties_asc sortProperties_other
      propertyMatches_priceSort filter_sort)

lemma filteredProperties_desc:
  assumes "priceSort f = ''Harga Tertinggi''"
  shows "filteredProperties ps f
           = sort_key (\<lambda>p. - price p) (filteredProperties ps (f\<lparr>priceSort := ''Default''\<rparr>))"
  by (simp add: filteredProperties_eq assms sortProperties_desc sortProperties_other
      propertyMatches_priceSort filter_sort)

lemma sort_key_neg_stable:
  "filter (\<lambda>p. price p = k) (sort_key (\<lambda>p. - price p) xs) = filter (\<lambda>p. price p = k) xs"
  using sort_key_stable [of "\<lambda>p. - price p" "- k" xs] by simp

lemma sort_key_idem: "sort_key g (sort_key g xs) = sort_key g xs"
  by (rule sort_key_id_if_sorted) (rule sorted_sort_key)

text \<open>
  C4: with \<open>priceSort\<close> \<open>Harga Terendah\<close> the visible set is in ascending order of price,
  with \<open>Harga Tertinggi\<close> in descending order; in both cases the properties of any one
  price appear in the order they have in the visible set of the unsorted collection
  (stability), and sorting again changes nothing, neither on the sorted collection nor on
  the visible set (idempotence). With \<open>Default\<close> nothing is sorted: the visible set is
  the collection filtered in place. Three properties with prices 100, 50, 75 are put in the
  order 50, 75, 100 by \<open>Harga Terendah\<close>.
\<close>

theorem C4_price_sort:
  "(priceSort f = ''Harga Terendah'' \<longrightarrow>
      sorted_wrt (\<lambda>a b. price a \<le> price b) (filteredProperties ps f) \<and>
      (\<forall>k. filter (\<lambda>p. price p = k) (filteredProperties ps f)
            = filter (\<lambda>p. price p = k) (filteredProperties ps (f\<lparr>priceSort := ''Default''\<rparr>))) \<and>
      sortProperties (priceSort f) (sortProperties (priceSort f) ps) = sortProperties (priceSort f) ps \<and>
      sortProperties (priceSort f) (filteredProperties ps f) = filteredProperties ps f) \<and>
   (priceSort f = ''Harga Tertinggi'' \<longrightarrow>
      sorted_wrt (\<lambda>a b. price b \<le> price a) (filteredProperties ps f) \<and>
      (\<forall>k. filter (\<lambda>p. price p = k) (filteredProperties ps f)
            = filter (\<lambda>p. price p = k) (filteredProperties ps (f\<lparr>priceSort := ''Default''\<rparr>))) \<and>
      sortProperties (priceSort f) (sortProperties (priceSort f) ps) = sortProperties (priceSort f) ps \<and>
      sortProperties (priceSort f) (filteredProperties ps f) = filteredProperties ps f) \<and>
   (priceSort f = ''Default'' \<longrightarrow>
      sortProperties (priceSort f) ps = ps \<and>
      filteredProperties ps f
        = filter (propertyMatches f (parseAreaRange (FilterState.buildingArea f))
                    (parseAreaRange (FilterState.landArea f))) ps) \<and>
   (price p1 = 100 \<and> price p2 = 50 \<and> price p3 = 75 \<longrightarrow>
      sortProperties ''Harga Terendah'' [p1, p2, p3] = [p2, p3, p1])"
proof (intro conjI impI allI)
  assume a: "priceSort f = ''Harga Terendah''"
  note v = filteredProperties_asc [OF a, of ps]
  show "sorted_wrt (\<lambda>a b. price a \<le> price b) (filteredProperties ps f)"
    unfolding v sorted_asc_map [symmetric] by (rule sorted_sort_key)
  show "filter (\<lambda>p. price p = k) (filteredProperties ps f)
          = filter (\<lambda>p. price p = k) (filteredProperties ps (f\<lparr>priceSort := ''Default''\<rparr>))" for k
    unfolding v by (rule sort_key_stable)
  show "sortProperties (priceSort f) (sortProperties (priceSort f) ps) = sortProperties (priceSort f) ps"
    by (simp add: a sortProperties_asc sort_key_idem)
  show "sortProperties (priceSort f) (filteredProperties ps f) = filteredProperties ps f"
    unfolding v by (simp add: a sortProperties_asc sort_key_idem)
next
  assume d: "priceSort f = ''Harga Tertinggi''"
  note v = filteredProperties_desc [OF d, of ps]
  show "sorted_wrt (\<lambda>a b. price b \<le> price a) (filteredProperties ps f)"
    unfolding v sorted_desc_map [symmetric] by (rule sorted_sort_key)
  show "filter (\<lambda>p. price p = k) (filteredProperties ps f)
          = filter (\<lambda>p. price p = k) (filteredProperties ps (f\<lparr>priceSort := ''Default''\<rparr>))" for k
    unfolding v by (rule sort_key_neg_stable)
  show "sortProperties (priceSort f) (sortProperties (priceSort f) ps) = sortProperties (priceSort f) ps"
    by (simp add: d sortProperties_desc sort_key_idem)
  show "sortProperties (priceSort f) (filteredProperties ps f) = filteredProperties ps f"
    unfolding v by (simp add: d sortProperties_desc sort_key_idem)
next
  assume n: "priceSort f = ''Default''"
  show "sortProperties (priceSort f) ps = ps"
    by (simp add: n sortProperties_def)
  show "filteredProperties ps f
          = filter (propertyMatches f (parseAreaRange (FilterState.buildingArea f))
                      (parseAreaRange (FilterState.landArea f))) ps"
    by (simp add: filteredProperties_eq n sortProperties_def)
next
  assume "price p1 = 100 \<and> price p2 = 50 \<and> price p3 = 75"
  then show "sortProperties ''Harga Terendah'' [p1, p2, p3] = [p2, p3, p1]"
    by (simp add: sortProperties_def array_sort_def)
qed

theorem C4_price_sort_witness:
  "map price
     (filteredProperties
        [exampleProperty ''1'' 100 90 120, exampleProperty ''2'' 50 60 70, exampleProperty ''3'' 75 80 90]
        (initialFilters\<lparr>priceSort := ''Harga Terendah''\<rparr>)) = [50, 75, 100] \<and>
   sorted_wrt (\<lambda>a b. price a \<le> price b)
     (filteredProperties
        [exampleProperty ''1'' 100 90 120, exampleProperty ''2'' 50 60 70, exampleProperty ''3'' 75 80 90]
        (initialFilters\<lparr>priceSort := ''Harga Terendah''\<rparr>)) \<and>
   map id_prop
     (filteredProperties
        [exampleProperty ''1'' 100 90 120, exampleProperty ''2'' 50 60 70, exampleProperty ''3'' 100 80 90]
        (initialFilters\<lparr>priceSort := ''Harga Tertinggi''\<rparr>)) = [''1'', ''3'', ''2''] \<and>
   filteredProperties
        [exampleProperty ''1'' 100 90 120, exampleProperty ''2'' 50 60 70, exampleProperty ''3'' 75 80 90]
        initialFilters
     = [exampleProperty ''1'' 100 90 120, exampleProperty ''2'' 50 60 70, exampleProperty ''3'' 75 80 90]"
proof -
  let ?p1 = "exampleProperty ''1'' 100 90 120"
  let ?p2 = "exampleProperty ''2'' 50 60 70"
  let ?p3 = "exampleProperty ''3'' 75 80 90"
  let ?p4 = "exampleProperty ''3'' 100 80 90"
  let ?asc = "initialFilters\<lparr>priceSort := ''Harga Terendah''\<rparr>"
  let ?desc = "initialFilters\<lparr>priceSort := ''Harga Tertinggi''\<rparr>"
  have pr: "price (exampleProperty i c b l) = c" for i c b l
    by (simp add: exampleProperty_def)
  have m: "propertyMatches f (parseAreaRange ''Semua'') (parseAreaRange ''Semua'') (exampleProperty i c b l)
             = (0 \<le> b \<and> 0 \<le> l)"
    if "searchTerm f = []" "propertyType f = ''Semua''" for f i c b l
    using that by (simp add: parseAreaRange_Semua propertyMatches_def exampleProperty_def)
  note t = C4_price_sort [where f = ?asc and ps = "[?p1, ?p2, ?p3]" and ?p1.0 = ?p1 and ?p2.0 = ?p2 and ?p3.0 = ?p3]
  have s1: "sortProperties ''Harga Terendah'' [?p1, ?p2, ?p3] = [?p2, ?p3, ?p1]"
    using t by (simp add: pr)
  have s2: "sorted_wrt (\<lambda>a b. price a \<le> price b) (filteredProperties [?p1, ?p2, ?p3] ?asc)"
    using t by simp
  have a: "filteredProperties [?p1, ?p2, ?p3] ?asc = [?p2, ?p3, ?p1]"
    by (simp add: filteredProperties_eq initialFilters_def s1 m)
  have d: "filteredProperties [?p1, ?p2, ?p4] ?desc = [?p1, ?p4, ?p2]"
    by (simp add: filteredProperties_eq initialFilters_def sortProperties_def array_sort_def pr m)
  have n: "filteredProperties [?p1, ?p2, ?p3] initialFilters = [?p1, ?p2, ?p3]"
    using C4_price_sort [where f = initialFilters and ps = "[?p1, ?p2, ?p3]"
        and ?p1.0 = ?p1 and ?p2.0 = ?p2 and ?p3.0 = ?p3]
    by (simp add: initialFilters_def m)
  show ?thesis
    using s2 unfolding a d n by (simp add: exampleProperty_def)
qed

section \<open>View switch and filter change\<close>

lemma viewMode_setViewMode:
  "viewMode ((setViewMode mode s)\<lparr>selectedPropertyForCard := c\<rparr>) = mode"
  by (cases mode) (simp_all add: viewMode_def setViewMode_def)

text \<open>
  C5: for every prior state, a view-mode change to the other mode (list to map or map to
  list), followed by the effect that the changed view mode triggers, leaves the selection
  set empty and no property selected for the floating card, so no card is rendered.
\<close>

theorem C5_view_switch_clears:
  assumes "mode \<noteq> viewMode s"
  shows "selectedPropertyIds (afterEvent (onViewModeChange mode) s) = [] \<and>
         selectedPropertyForCard (afterEvent (onViewModeChange mode) s) = None \<and>
         cardStyle (afterEvent (onViewModeChange mode) s) = None \<and>
         viewMode (afterEvent (onViewModeChange mode) s) = mode"
proof -
  have v: "viewMode (onViewModeChange mode s) = mode"
    by (simp add: onViewModeChange_def viewMode_setViewMode)
  then have e: "afterEvent (onViewModeChange mode) s = viewModeEffect (onViewModeChange mode s)"
    using assms by (simp add: afterEvent_def runEffects_def)
  have "viewMode (viewModeEffect (onViewModeChange mode s)) = mode"
    using v by (simp add: viewModeEffect_def viewMode_def)
  then show ?thesis
    unfolding e by (simp add: viewModeEffect_def cardStyle_def)
qed

theorem C5_view_switch_clears_witness:
  "ListView \<noteq> viewMode ((initialState [exampleProperty ''1'' 100 90 120])
      \<lparr>selectedPropertyIds := [''1''],
       selectedPropertyForCard := Some (exampleProperty ''1'' 100 90 120)\<rparr>) \<and>
   selectedPropertyIds (afterEvent (onViewModeChange ListView)
     ((initialState [exampleProperty ''1'' 100 90 120])
      \<lparr>selectedPropertyIds := [''1''],
       selectedPropertyForCard := Some (exampleProperty ''1'' 100 90 120)\<rparr>)) = [] \<and>
   selectedPropertyForCard (afterEvent (onViewModeChange ListView)
     ((initialState [exampleProperty ''1'' 100 90 120])
      \<lparr>selectedPropertyIds := [''1''],
       selectedPropertyForCard := Some (exampleProperty ''1'' 100 90 120)\<rparr>)) = None"
proof -
  let ?s = "(initialState [exampleProperty ''1'' 100 90 120])
      \<lparr>selectedPropertyIds := [''1''],
       selectedPropertyForCard := Some (exampleProperty ''1'' 100 90 120)\<rparr>"
  have h: "ListView \<noteq> viewMode ?s"
    by (simp add: viewMode_def initialState_def)
  show ?thesis
    using h C5_view_switch_clears [OF h] by simp
qed

text \<open>
  C6: for every state and every filter update, the selection set after the filter change
  (and after the effects that follow it) is the selection set before it, ids and order:
  filtering never prunes the selection, also when a selected property leaves the visible
  set.
\<close>

theorem C6_filter_change_keeps_selection:
  "selectedPropertyIds (afterEvent (handleFilterChange newFilters) s) = selectedPropertyIds s"
  by (simp add: afterEvent_def runEffects_def handleFilterChange_def viewMode_def)

theorem C6_filter_change_keeps_selection_witness:
  "visibleSet (afterEvent (handleFilterChange (noFilterChange\<lparr>buildingArea_upd := Some ''100+''\<rparr>))
      ((initialState [exampleProperty ''1'' 100 90 120])\<lparr>selectedPropertyIds := [''1'']\<rparr>)) = [] \<and>
   selectedPropertyIds (afterEvent (handleFilterChange (noFilterChange\<lparr>buildingArea_upd := Some ''100+''\<rparr>))
      ((initialState [exampleProperty ''1'' 100 90 120])\<lparr>selectedPropertyIds := [''1'']\<rparr>)) = [''1'']"
proof -
  let ?s = "(initialState [exampleProperty ''1'' 100 90 120])\<lparr>selectedPropertyIds := [''1'']\<rparr>"
  let ?u = "noFilterChange\<lparr>buildingArea_upd := Some ''100+''\<rparr>"
  have f: "filters (afterEvent (handleFilterChange ?u) ?s)
             = initialFilters\<lparr>FilterState.buildingArea := ''100+''\<rparr>"
    by (simp add: afterEvent_def runEffects_def handleFilterChange_def viewMode_def
        initialState_def mergeFilters_def noFilterChange_def initialFilters_def)
  have p: "properties (afterEvent (handleFilterChange ?u) ?s) = [exampleProperty ''1'' 100 90 120]"
    by (simp add: afterEvent_def runEffects_def handleFilterChange_def viewMode_def initialState_def)
  have "visibleSet (afterEvent (handleFilterChange ?u) ?s) = []"
    unfolding visibleSet_def f p
    by (simp add: filteredProperties_100plus exampleProperty_def)
  then show ?thesis
    using C6_filter_change_keeps_selection [of ?u ?s] by (simp add: initialState_def)
qed

section \<open>Placement of the floating card\<close>








text \<open>
  C8: when the DOM event of a marker click is not a mouse event, no position is computed:
  the card position is reset to null, and the card, shown for the clicked property, gets
  the fixed style \<open>bottom: 1rem, left: 1rem\<close>.
\<close>

theorem C8_no_pointer_fallback:
  assumes "domEvent event = OtherEvent"
  shows "cardPosition (handleMarkerClick vp property event s) = None \<and>
         selectedPropertyForCard (handleMarkerClick vp property event s) = Some property \<and>
         cardStyle (handleMarkerClick vp property event s) = Some (BottomLeft ''1rem'' ''1rem'')"
  using assms by (simp add: handleMarkerClick_def cardStyle_def)

theorem C8_no_pointer_fallback_witness:
  "cardStyle (handleMarkerClick
      \<lparr>headerOffsetHeight = Some 64, innerWidth = 1000, innerHeight = 800\<rparr>
      (exampleProperty ''1'' 100 90 120)
      \<lparr>domEvent = OtherEvent, latLng = None\<rparr>
      ((initialState [exampleProperty ''1'' 100 90 120])\<lparr>cardPosition := Some (600, 484)\<rparr>))
     = Some (BottomLeft ''1rem'' ''1rem'')"
  using C8_no_pointer_fallback
    [where event = "\<lparr>domEvent = OtherEvent, latLng = None\<rparr>"
       and vp = "\<lparr>headerOffsetHeight = Some 64, innerWidth = 1000, innerHeight = 800\<rparr>"
       and property = "exampleProperty ''1'' 100 90 120"
       and s = "(initialState [exampleProperty ''1'' 100 90 120])\<lparr>cardPosition := Some (600, 484)\<rparr>"]
  by simp

section \<open>Adding a property\<close>

lemma handleMapClick_coords:
  "newPropertyCoords (handleMapClick \<lparr>domEvent = ev, latLng = Some coords\<rparr> s) = Some coords \<and>
   isAddDrawerOpen (handleMapClick \<lparr>domEvent = ev, latLng = Some coords\<rparr> s) \<and>
   properties (handleMapClick \<lparr>domEvent = ev, latLng = Some coords\<rparr> s) = properties s"
  by (simp add: handleMapClick_def)

lemma handleAddProperty_result:
  "properties (handleAddProperty d s)
     = properties s @ [NewPropertyData.extend d (Property.fields (toString (length (properties s) + 100)))] \<and>
   \<not> isAddDrawerOpen (handleAddProperty d s) \<and>
   newPropertyCoords (handleAddProperty d s) = None"
  by (simp add: handleAddProperty_def newPropertyId_def)

lemma handleAddDrawerOpen_close:
  "properties (handleAddDrawerOpen False s) = properties s \<and>
   newPropertyCoords (handleAddDrawerOpen False s) = None \<and>
   \<not> isAddDrawerOpen (handleAddDrawerOpen False s)"
  by (simp add: handleAddDrawerOpen_def)

lemma newProperty_fields:
  "id_prop (NewPropertyData.extend (formPayload e c) (Property.fields i)) = i"
  "lat (NewPropertyData.extend (formPayload e c) (Property.fields i)) = fst c"
  "lng (NewPropertyData.extend (formPayload e c) (Property.fields i)) = snd c"
  "FormFields.truncate (NewPropertyData.extend (formPayload e c) (Property.fields i)) = e"
  by (simp_all add: formPayload_def NewPropertyData.defs Property.defs FormFields.defs)

lemma toString_101: "toString 101 = ''101''"
  by code_simp

text \<open>
  C9, as stated: the identifier synthesized for the new property is distinct from all
  existing identifiers. The identifier is the decimal string of the collection length plus
  100, so it collides with an existing one as soon as the collection already holds that
  string: with the single property of identifier \<open>101\<close>, the added property is given
  \<open>101\<close> as well.
\<close>

theorem C9_add_property_counterexample:
  "id_prop (last (properties
      (handleAddProperty (formPayload (exampleFields ''X'') (1, 2))
         (handleMapClick \<lparr>domEvent = OtherEvent, latLng = Some (1, 2)\<rparr>
            (initialState [exampleProperty ''101'' 100 90 120])))))
     = id_prop (exampleProperty ''101'' 100 90 120)"
  by (simp add: handleMapClick_def handleAddProperty_def
      newPropertyId_def initialState_def newProperty_fields toString_101 exampleProperty_def)

text \<open>
  C9, amended: a map background click at \<open>coords\<close> stores them as pending coordinates
  and opens the drawer. Submitting the form, whose payload is the entered fields with
  those coordinates, then appends exactly one property at the end
  of the collection and leaves the earlier entries as they were; the new property has the
  entered form fields, the captured coordinates, and as identifier the decimal string of
  the collection length plus 100. That identifier is distinct from the existing ones
  provided none of them is that string, and then the identifiers stay pairwise distinct
  if they were. The submission closes the drawer and clears the pending coordinates.
  Dismissing the drawer instead discards the pending coordinates, closes the drawer and
  leaves the collection unchanged.
\<close>

theorem C9_add_property:
  "(let s1 = handleMapClick \<lparr>domEvent = ev, latLng = Some coords\<rparr> s;
        s2 = handleAddProperty (formPayload entered coords) s1;
        s3 = handleAddDrawerOpen False s1;
        newId = toString (length (properties s) + 100);
        newProperty = NewPropertyData.extend (formPayload entered coords) (Property.fields newId)
    in newPropertyCoords s1 = Some coords \<and> isAddDrawerOpen s1 \<and> properties s1 = properties s \<and>
       properties s2 = properties s @ [newProperty] \<and>
       FormFields.truncate newProperty = entered \<and>
       lat newProperty = fst coords \<and> lng newProperty = snd coords \<and>
       id_prop newProperty = newId \<and>
       (newId \<notin> id_prop ` set (properties s) \<and> distinct (map id_prop (properties s)) \<longrightarrow>
          distinct (map id_prop (properties s2))) \<and>
       \<not> isAddDrawerOpen s2 \<and> newPropertyCoords s2 = None \<and>
       properties s3 = properties s \<and> newPropertyCoords s3 = None \<and> \<not> isAddDrawerOpen s3)"
proof -
  let ?s1 = "handleMapClick \<lparr>domEvent = ev, latLng = Some coords\<rparr> s"
  have m: "newPropertyCoords ?s1 = Some coords" "isAddDrawerOpen ?s1" "properties ?s1 = properties s"
    using handleMapClick_coords [of ev coords s] by simp_all
  note a = handleAddProperty_result [of "formPayload entered coords" ?s1]
  show ?thesis
    unfolding Let_def
    using m a handleAddDrawerOpen_close [of ?s1]
    by (simp add: newProperty_fields)
qed

theorem C9_add_property_witness:
  "properties
     (handleAddProperty (formPayload (exampleFields ''X'') (1, 2))
        (handleMapClick \<lparr>domEvent = OtherEvent, latLng = Some (1, 2)\<rparr>
           (initialState [exampleProperty ''1'' 100 90 120])))
     = [exampleProperty ''1'' 100 90 120,
        \<lparr>title = ''X'', description = [], location = ''Bandung'', price = 250,
         type_prop = ''Rumah'', FormFields.buildingArea = 70, FormFields.landArea = 100,
         lat = 1, lng = 2, id_prop = ''101''\<rparr>] \<and>
   distinct (map id_prop (properties
     (handleAddProperty (formPayload (exampleFields ''X'') (1, 2))
        (handleMapClick \<lparr>domEvent = OtherEvent, latLng = Some (1, 2)\<rparr>
           (initialState [exampleProperty ''1'' 100 90 120])))))"
proof -
  have p: "properties (initialState [exampleProperty ''1'' 100 90 120]) = [exampleProperty ''1'' 100 90 120]"
    by (simp add: initialState_def)
  have n: "NewPropertyData.extend (formPayload (exampleFields ''X'') (1, 2)) (Property.fields ''101'')
             = \<lparr>title = ''X'', description = [], location = ''Bandung'', price = 250,
                type_prop = ''Rumah'', FormFields.buildingArea = 70, FormFields.landArea = 100,
                lat = 1, lng = 2, id_prop = ''101''\<rparr>"
    by (simp add: formPayload_def exampleFields_def NewPropertyData.defs Property.defs FormFields.defs)
  have i: "id_prop (exampleProperty ''1'' 100 90 120) = ''1''"
    by (simp add: exampleProperty_def)
  show ?thesis
    using C9_add_property
      [where ev = OtherEvent and coords = "(1, 2)" and entered = "exampleFields ''X''"
         and s = "initialState [exampleProperty ''1'' 100 90 120]"]
    unfolding Let_def p
    by (simp add: toString_101 n i)
qed

end
